theory Spec2Isabelle
  imports Main
begin

section \<open>Package monitor: data model\<close>

text \<open>
  Go's \<open>int\<close>, \<open>time.Duration\<close> and \<open>time.Time\<close> are modelled as \<open>int\<close>: the
  code only stores and compares them (\<open>r.StatusCode >= 400\<close>, the map key), it does no
  arithmetic on them, so no wrap-around can occur. A \<open>time.Time\<close> is the number of
  nanoseconds since the zero Time, whose value is \<open>0\<close>. Strings are \<open>string\<close>.
\<close>

definition statusUp :: string where "statusUp = ''up''"
definition statusError :: string where "statusError = ''error''"
definition statusDown :: string where "statusDown = ''down''"
definition statusPaused :: string where "statusPaused = ''paused''"

definition Second :: int where "Second = 1000000000"

record ClientConfig =
  Timeout :: int
  MaxIdleConns :: int
  IdleConnTimeout :: int

definition DefaultClientConfig :: ClientConfig where
  "DefaultClientConfig =
     \<lparr>Timeout = 10 * Second, MaxIdleConns = 100, IdleConnTimeout = 90 * Second\<rparr>"

text \<open>\<open>http.Transport\<close> and \<open>http.Client\<close>, with the fields that \<open>NewSite\<close> sets.\<close>

record Transport =
  tr_MaxIdleConns :: int
  tr_IdleConnTimeout :: int

record Client =
  cl_Timeout :: int
  cl_Transport :: Transport

text \<open>
  The struct \<open>Site\<close>. \<open>cancelFunc\<close> is \<open>None\<close> for a nil function value and
  \<open>Some c\<close> for the cancel function of context \<open>c\<close>; \<open>client\<close> is \<open>None\<close> for a nil
  pointer. The mutex \<open>mu\<close> carries no data: taking and releasing it are events of the
  trace below.
\<close>

record Site =
  ID :: int
  URL :: string
  Status :: string
  Enabled :: bool
  Interval :: int
  StatusChangedAt :: int
  cancelFunc :: "nat option"
  client :: "Client option"

section \<open>Effects\<close>

text \<open>
  A \<open>*Site\<close> is an address into the heap of sites; an address at which the heap holds no
  site stands for the nil pointer, and dereferencing it panics. What the code does beyond
  changing sites and the registry is recorded, in program order, in a trace of events:
  mutex operations, stores to fields of a site and to the registry map, the HTTP request,
  log records, the cancellation of a context and the start of a goroutine.
\<close>

datatype mutex = ManagerMu | SiteMu nat

datatype field = FStatus | FStatusChangedAt | FEnabled | FCancelFunc

datatype error =
    ConnectionError string
  | HTTPError int
  | AlreadyMonitored string

datatype level = LevelInfo | LevelError

datatype attr = AStr string | AErr error

datatype event =
    Lock mutex
  | Unlock mutex
  | Store nat field
  | MapStore int
  | MapDelete int
  | HTTPGet string
  | Slog level string "(string \<times> attr) list"
  | Cancel nat
  | Go nat

datatype panic = NilPointerDereference | NonPositiveTickerInterval

text \<open>What \<open>s.client.Get(s.URL)\<close> returns: an error, or a response with its status code.\<close>

datatype http_result = TransportError string | Response int

text \<open>
  The goroutine started by \<open>RegisterSite\<close>: the context and the site its closure captured,
  and where it stands: started but before \<open>time.NewTicker\<close>, in the \<open>select\<close> loop, or
  returned.
\<close>

datatype task_state = Spawned | Polling | Exited

record task =
  t_ctx :: nat
  t_site :: nat
  t_state :: task_state

text \<open>
  The state of the program: the heap of sites, the map \<open>m.sites\<close> of the one \<open>Manager\<close>,
  for every context created so far whether it has been cancelled, the goroutines, the trace.
\<close>

record world =
  heap :: "Site list"
  sites :: "int \<rightharpoonup> nat"
  ctxs :: "bool list"
  tasks :: "task list"
  trace :: "event list"

type_synonym 'a result = "(panic + 'a) \<times> world"

definition deref :: "world \<Rightarrow> nat \<Rightarrow> Site option" where
  "deref w p = (if p < length (heap w) then Some (heap w ! p) else None)"

definition emit :: "event list \<Rightarrow> world \<Rightarrow> world" where
  "emit evs w = w\<lparr>trace := trace w @ evs\<rparr>"

definition NewManager :: world where
  "NewManager = \<lparr>heap = [], sites = Map.empty, ctxs = [], tasks = [], trace = []\<rparr>"

section \<open>Site\<close>

definition NewSite :: "int \<Rightarrow> string \<Rightarrow> int \<Rightarrow> ClientConfig \<Rightarrow> world \<Rightarrow> nat \<times> world" where
  "NewSite sid url interval config w =
     (let transport = \<lparr>tr_MaxIdleConns = MaxIdleConns config,
                       tr_IdleConnTimeout = IdleConnTimeout config\<rparr>;
          s = \<lparr>ID = sid, URL = url, Status = [], Enabled = True, Interval = interval,
               StatusChangedAt = 0, cancelFunc = None,
               client = Some \<lparr>cl_Timeout = Timeout config, cl_Transport = transport\<rparr>\<rparr>
      in (length (heap w), w\<lparr>heap := heap w @ [s]\<rparr>))"

text \<open>\<open>updateStatus\<close>; \<open>now\<close> is what \<open>time.Now()\<close> returns.\<close>

definition updateStatus :: "nat \<Rightarrow> string \<Rightarrow> int \<Rightarrow> world \<Rightarrow> unit result" where
  "updateStatus p status now w =
     (case deref w p of
        None \<Rightarrow> (Inl NilPointerDereference, w)
      | Some s \<Rightarrow>
          if Status s \<noteq> status
          then (Inr (),
                emit [Lock (SiteMu p), Store p FStatus, Store p FStatusChangedAt, Unlock (SiteMu p)]
                  (w\<lparr>heap := (heap w)[p := s\<lparr>Status := status, StatusChangedAt := now\<rparr>]\<rparr>))
          else (Inr (), emit [Lock (SiteMu p), Unlock (SiteMu p)] w))"

text \<open>
  \<open>Check\<close>; \<open>r\<close> is what the GET returns. The result is the returned \<open>error\<close>,
  \<open>None\<close> for nil. Closing the response body, which the source defers, changes nothing
  that is modelled. A nil client is modelled as a panic, which is what sending the request
  through it does; the one call that returns before the client is touched, a GET of a URL
  that does not parse, is not told apart, and every theorem below is about a site that has
  a client, as every site made by \<open>NewSite\<close> has.
\<close>

definition Check :: "nat \<Rightarrow> http_result \<Rightarrow> int \<Rightarrow> world \<Rightarrow> error option result" where
  "Check p r now w =
     (case deref w p of
        None \<Rightarrow> (Inl NilPointerDereference, w)
      | Some s \<Rightarrow>
          (case client s of
             None \<Rightarrow> (Inl NilPointerDereference, w)
           | Some c \<Rightarrow>
               (let w1 = emit [HTTPGet (URL s)] w in
                case r of
                  TransportError e \<Rightarrow>
                    (case updateStatus p statusError now w1 of
                       (Inl pn, w2) \<Rightarrow> (Inl pn, w2)
                     | (Inr u, w2) \<Rightarrow> (Inr (Some (ConnectionError e)), w2))
                | Response code \<Rightarrow>
                    if code \<ge> 400
                    then (case updateStatus p statusDown now w1 of
                            (Inl pn, w2) \<Rightarrow> (Inl pn, w2)
                          | (Inr u, w2) \<Rightarrow> (Inr (Some (HTTPError code)), w2))
                    else (case updateStatus p statusUp now w1 of
                            (Inl pn, w2) \<Rightarrow> (Inl pn, w2)
                          | (Inr u, w2) \<Rightarrow> (Inr None, w2)))))"

section \<open>Manager\<close>

definition RegisterSite :: "nat \<Rightarrow> world \<Rightarrow> error option result" where
  "RegisterSite p w =
     (case deref w p of
        None \<Rightarrow> (Inl NilPointerDereference, emit [Lock ManagerMu, Unlock ManagerMu] w)
      | Some s \<Rightarrow>
          if sites w (ID s) \<noteq> None
          then (Inr (Some (AlreadyMonitored (URL s))), emit [Lock ManagerMu, Unlock ManagerMu] w)
          else
            (let c = length (ctxs w); t = length (tasks w) in
             (Inr None,
              emit [Lock ManagerMu, Store p FCancelFunc, MapStore (ID s), Go t,
                    Slog LevelInfo ''Monitoring started'' [(''site'', AStr (URL s))],
                    Unlock ManagerMu]
                (w\<lparr>heap := (heap w)[p := s\<lparr>cancelFunc := Some c\<rparr>],
                   sites := (sites w)(ID s \<mapsto> p),
                   ctxs := ctxs w @ [False],
                   tasks := tasks w @ [\<lparr>t_ctx = c, t_site = p, t_state = Spawned\<rparr>]\<rparr>))))"

text \<open>
  \<open>RevokeSite\<close>. In the \<open>else\<close> branch \<open>site\<close> is the zero value of \<open>*Site\<close>, nil, and the
  argument \<open>site.URL\<close> of the log call is evaluated before the call: the branch panics,
  and the deferred \<open>Unlock\<close> runs.
\<close>

definition RevokeSite :: "int \<Rightarrow> world \<Rightarrow> unit result" where
  "RevokeSite siteID w =
     (case sites w siteID of
        Some p \<Rightarrow>
          (case deref w p of
             None \<Rightarrow> (Inl NilPointerDereference, emit [Lock ManagerMu, Unlock ManagerMu] w)
           | Some s \<Rightarrow>
               (case cancelFunc s of
                  None \<Rightarrow> (Inl NilPointerDereference, emit [Lock ManagerMu, Unlock ManagerMu] w)
                | Some c \<Rightarrow>
                    (Inr (),
                     emit [Lock ManagerMu, Cancel c, MapDelete siteID,
                           Slog LevelInfo ''Monitoring Stopped'' [(''Site'', AStr (URL s))],
                           Unlock ManagerMu]
                       (w\<lparr>ctxs := (ctxs w)[c := True],
                          sites := (sites w)(siteID := None)\<rparr>))))
      | None \<Rightarrow> (Inl NilPointerDereference, emit [Lock ManagerMu, Unlock ManagerMu] w))"

definition EnableSite :: "int \<Rightarrow> world \<Rightarrow> unit result" where
  "EnableSite siteID w =
     (case sites w siteID of
        Some p \<Rightarrow>
          (case deref w p of
             None \<Rightarrow> (Inl NilPointerDereference, emit [Lock ManagerMu, Unlock ManagerMu] w)
           | Some s \<Rightarrow>
               (Inr (),
                emit [Lock ManagerMu, Store p FEnabled,
                      Slog LevelInfo ''Site monitoring enabled'' [(''site'', AStr (URL s))],
                      Unlock ManagerMu]
                  (w\<lparr>heap := (heap w)[p := s\<lparr>Enabled := True\<rparr>]\<rparr>)))
      | None \<Rightarrow> (Inr (), emit [Lock ManagerMu, Unlock ManagerMu] w))"

definition DisableSite :: "int \<Rightarrow> world \<Rightarrow> unit result" where
  "DisableSite siteID w =
     (case sites w siteID of
        Some p \<Rightarrow>
          (case deref w p of
             None \<Rightarrow> (Inl NilPointerDereference, emit [Lock ManagerMu, Unlock ManagerMu] w)
           | Some s \<Rightarrow>
               (Inr (),
                emit [Lock ManagerMu, Store p FEnabled,
                      Slog LevelInfo ''Site monitoring disabled'' [(''site'', AStr (URL s))],
                      Unlock ManagerMu]
                  (w\<lparr>heap := (heap w)[p := s\<lparr>Enabled := False\<rparr>]\<rparr>)))
      | None \<Rightarrow> (Inr (), emit [Lock ManagerMu, Unlock ManagerMu] w))"

section \<open>The polling goroutine\<close>

text \<open>
  The goroutine of \<open>RegisterSite\<close>, one function for each thing it can do next. Which one
  happens, and when, is the scheduler's and the environment's choice: \<open>task_start\<close> runs
  \<open>time.NewTicker(site.Interval)\<close>, which panics on a non-positive interval, and enters
  the loop; \<open>task_tick\<close> is the \<open>select\<close> case \<open>ticker.C\<close>; \<open>task_done\<close> is the case
  \<open>ctx.Done()\<close>, possible once the context is cancelled. A function applied to a
  goroutine that is not in the state for it leaves the world as it is.
\<close>

definition task_start :: "nat \<Rightarrow> world \<Rightarrow> unit result" where
  "task_start i w =
     (if i < length (tasks w) \<and> t_state (tasks w ! i) = Spawned
      then (let t = tasks w ! i in
            case deref w (t_site t) of
              None \<Rightarrow> (Inl NilPointerDereference, w)
            | Some s \<Rightarrow>
                if Interval s \<le> 0 then (Inl NonPositiveTickerInterval, w)
                else (Inr (), w\<lparr>tasks := (tasks w)[i := t\<lparr>t_state := Polling\<rparr>]\<rparr>))
      else (Inr (), w))"

definition task_tick :: "nat \<Rightarrow> http_result \<Rightarrow> int \<Rightarrow> world \<Rightarrow> unit result" where
  "task_tick i r now w =
     (if i < length (tasks w) \<and> t_state (tasks w ! i) = Polling
      then (let p = t_site (tasks w ! i) in
            case deref w p of
              None \<Rightarrow> (Inl NilPointerDereference, w)
            | Some s \<Rightarrow>
                if \<not> Enabled s then (Inr (), w)
                else (case Check p r now w of
                        (res, w') \<Rightarrow>
                          (case res of
                             Inl pn \<Rightarrow> (Inl pn, w')
                           | Inr None \<Rightarrow> (Inr (), w')
                           | Inr (Some err) \<Rightarrow>
                               (Inr (),
                                emit [Slog LevelError ''Site check failed''
                                        [(''site'', AStr (URL s)), (''error'', AErr err)]] w'))))
      else (Inr (), w))"

definition task_done :: "nat \<Rightarrow> world \<Rightarrow> unit result" where
  "task_done i w =
     (if i < length (tasks w) \<and> t_state (tasks w ! i) = Polling
         \<and> t_ctx (tasks w ! i) < length (ctxs w) \<and> ctxs w ! t_ctx (tasks w ! i)
      then (let t = tasks w ! i in
            case deref w (t_site t) of
              None \<Rightarrow> (Inl NilPointerDereference, w)
            | Some s \<Rightarrow>
                (Inr (),
                 emit [Slog LevelInfo ''Monitoring stopperd'' [(''site'', AStr (URL s))],
                       Lock ManagerMu, MapDelete (ID s), Unlock ManagerMu]
                   (w\<lparr>sites := (sites w)(ID s := None),
                      tasks := (tasks w)[i := t\<lparr>t_state := Exited\<rparr>]\<rparr>)))
      else (Inr (), w))"

section \<open>Runs of the program\<close>

text \<open>
  A run is a sequence of calls of the package's functions and of steps of its goroutines,
  from the state of \<open>NewManager\<close>. A panic ends the run, in the state it left.
\<close>

datatype op =
    OpNewSite int string int ClientConfig
  | OpCheck nat http_result int
  | OpRegisterSite nat
  | OpRevokeSite int
  | OpEnableSite int
  | OpDisableSite int
  | OpTaskStart nat
  | OpTaskTick nat http_result int
  | OpTaskDone nat

definition discard :: "'a result \<Rightarrow> unit result" where
  "discard x = (case fst x of Inl pn \<Rightarrow> Inl pn | Inr v \<Rightarrow> Inr (), snd x)"

fun step :: "op \<Rightarrow> world \<Rightarrow> unit result" where
  "step (OpNewSite sid url interval config) w = (Inr (), snd (NewSite sid url interval config w))"
| "step (OpCheck p r now) w = discard (Check p r now w)"
| "step (OpRegisterSite p) w = discard (RegisterSite p w)"
| "step (OpRevokeSite siteID) w = RevokeSite siteID w"
| "step (OpEnableSite siteID) w = EnableSite siteID w"
| "step (OpDisableSite siteID) w = DisableSite siteID w"
| "step (OpTaskStart i) w = task_start i w"
| "step (OpTaskTick i r now) w = task_tick i r now w"
| "step (OpTaskDone i) w = task_done i w"

fun run :: "op list \<Rightarrow> world \<Rightarrow> unit result" where
  "run [] w = (Inr (), w)"
| "run (x # xs) w =
     (case fst (step x w) of
        Inl pn \<Rightarrow> (Inl pn, snd (step x w))
      | Inr u \<Rightarrow> run xs (snd (step x w)))"

section \<open>Package notification\<close>

text \<open>The payload \<open>notification.State\<close>, as the test constructs it.\<close>

record State =
  st_Name :: string
  st_Status :: string
  st_Message :: string
  st_UpdatedAt :: int

text \<open>\<open>mockObserver\<close>, \<open>newMockObserver\<close> and \<open>mockObserver.Notify\<close> of the service's test.\<close>

record mockObserver =
  mo_state :: State
  mo_err :: "string option"

definition zeroState :: State where
  "zeroState = \<lparr>st_Name = [], st_Status = [], st_Message = [], st_UpdatedAt = 0\<rparr>"

definition newMockObserver :: "string option \<Rightarrow> mockObserver" where
  "newMockObserver e = \<lparr>mo_state = zeroState, mo_err = e\<rparr>"

definition mockNotify :: "mockObserver \<Rightarrow> State \<Rightarrow> string option \<times> mockObserver" where
  "mockNotify m st =
     (if mo_err m \<noteq> None then (mo_err m, m) else (None, m\<lparr>mo_state := st\<rparr>))"

text \<open>
  Modelled from the spec: the type \<open>Subject\<close> of package \<open>notification\<close>, the hub
  that holds the set of attached observers; the repository's sources hold only the test
  that uses it. An observer is a value \<open>'o\<close> with a method that takes the state and
  returns its error, \<open>None\<close> for nil, and the observer as the call left it.
\<close>

record 'o Subject =
  observers :: "'o list"

text \<open>Modelled from the spec: \<open>NewSubject\<close>, missing from the sources; no observer is attached.\<close>

definition NewSubject :: "'o Subject" where
  "NewSubject = \<lparr>observers = []\<rparr>"

text \<open>
  Modelled from the spec: \<open>Attach\<close>, missing from the sources; it appends to the hub's
  observer set, without de-duplication.
\<close>

definition Attach :: "'o \<Rightarrow> 'o Subject \<Rightarrow> 'o Subject" where
  "Attach ob s = s\<lparr>observers := observers s @ [ob]\<rparr>"

text \<open>
  Modelled from the spec: the loop of \<open>Notify\<close>, missing from the sources; it invokes
  every attached observer with the same state, and an observer that fails adds its error
  to the list without stopping the loop.
\<close>

fun notify_each :: "('o \<Rightarrow> State \<Rightarrow> 'e option \<times> 'o) \<Rightarrow> State \<Rightarrow> 'o list \<Rightarrow> 'e list \<Rightarrow> 'e list \<times> 'o list" where
  "notify_each notify st [] errors = (errors, [])"
| "notify_each notify st (ob # obs) errors =
     (case notify ob st of
        (None, ob') \<Rightarrow>
          (case notify_each notify st obs errors of (es, obs') \<Rightarrow> (es, ob' # obs'))
      | (Some e, ob') \<Rightarrow>
          (case notify_each notify st obs (errors @ [e]) of (es, obs') \<Rightarrow> (es, ob' # obs')))"

text \<open>
  Modelled from the spec: \<open>Notify\<close>, missing from the sources; it returns the list of the
  observers' errors, empty when every delivery succeeded.
\<close>

definition Notify :: "('o \<Rightarrow> State \<Rightarrow> 'e option \<times> 'o) \<Rightarrow> State \<Rightarrow> 'o Subject \<Rightarrow> 'e list \<times> 'o Subject" where
  "Notify notify st s =
     (case notify_each notify st (observers s) [] of
        (errors, obs') \<Rightarrow> (errors, s\<lparr>observers := obs'\<rparr>))"

section \<open>Example states and the status invariant\<close>

text \<open>
  A site made by \<open>NewSite\<close> with the default client configuration, the state after
  registering it, after its goroutine has entered the loop, and after disabling it.
\<close>

definition ex_site :: Site where
  "ex_site = \<lparr>ID = 1, URL = ''http://example.com'', Status = [], Enabled = True,
              Interval = Second, StatusChangedAt = 0, cancelFunc = None,
              client = Some \<lparr>cl_Timeout = 10 * Second,
                             cl_Transport = \<lparr>tr_MaxIdleConns = 100,
                                              tr_IdleConnTimeout = 90 * Second\<rparr>\<rparr>\<rparr>"

definition ex_client :: Client where
  "ex_client = \<lparr>cl_Timeout = 10 * Second,
                 cl_Transport = \<lparr>tr_MaxIdleConns = 100, tr_IdleConnTimeout = 90 * Second\<rparr>\<rparr>"

definition ex_new :: world where
  "ex_new = snd (NewSite 1 ''http://example.com'' Second DefaultClientConfig NewManager)"

definition ex_registered :: world where
  "ex_registered = snd (RegisterSite 0 ex_new)"

definition ex_polling :: world where
  "ex_polling = snd (task_start 0 ex_registered)"

definition ex_disabled :: world where
  "ex_disabled = snd (DisableSite 1 ex_polling)"

definition ex_state :: State where
  "ex_state = \<lparr>st_Name = ''test-system'', st_Status = ''up'',
               st_Message = ''System is up'', st_UpdatedAt = 1730000000\<rparr>"

definition ex_subject :: "mockObserver Subject" where
  "ex_subject =
     Attach (newMockObserver None)
       (Attach (newMockObserver (Some ''notification error''))
          (Attach (newMockObserver None) NewSubject))"

text \<open>
  The state after revoking the example site while its goroutine is in the loop and
  registering it again, before that goroutine has seen the cancellation.
\<close>

definition ex_reregistered :: world where
  "ex_reregistered = snd (RegisterSite 0 (snd (RevokeSite 1 ex_polling)))"

text \<open>Every site of the heap has a status that is empty or one of the four constants.\<close>

definition status_inv :: "world \<Rightarrow> bool" where
  "status_inv w =
     (\<forall>s \<in> set (heap w). Status s \<in> {[], statusUp, statusDown, statusError, statusPaused})"

section \<open>Basic facts\<close>

lemma deref_NewSite:
  "deref (snd (NewSite sid url interval config w)) (fst (NewSite sid url interval config w)) =
     Some \<lparr>ID = sid, URL = url, Status = [], Enabled = True, Interval = interval,
           StatusChangedAt = 0, cancelFunc = None,
           client = Some \<lparr>cl_Timeout = Timeout config,
                          cl_Transport = \<lparr>tr_MaxIdleConns = MaxIdleConns config,
                                           tr_IdleConnTimeout = IdleConnTimeout config\<rparr>\<rparr>\<rparr>"
  by (simp add: NewSite_def deref_def Let_def)

lemma emit_simps [simp]:
  "trace (emit evs w) = trace w @ evs" "heap (emit evs w) = heap w"
  "sites (emit evs w) = sites w" "ctxs (emit evs w) = ctxs w" "tasks (emit evs w) = tasks w"
  by (simp_all add: emit_def)

lemma deref_emit [simp]: "deref (emit evs w) p = deref w p"
  by (simp add: deref_def emit_def)

lemma deref_heap_update:
  "deref w p = Some s \<Longrightarrow> deref (w\<lparr>heap := (heap w)[p := s']\<rparr>) q = (if q = p then Some s' else deref w q)"
  by (auto simp: deref_def split: if_splits)

lemma deref_in_heap: "deref w p = Some s \<Longrightarrow> s \<in> set (heap w)"
  by (auto simp: deref_def split: if_splits)

lemma updateStatus_result:
  "deref w p = Some s \<Longrightarrow>
   updateStatus p status now w =
     (Inr (),
      if Status s \<noteq> status
      then emit [Lock (SiteMu p), Store p FStatus, Store p FStatusChangedAt, Unlock (SiteMu p)]
             (w\<lparr>heap := (heap w)[p := s\<lparr>Status := status, StatusChangedAt := now\<rparr>]\<rparr>)
      else emit [Lock (SiteMu p), Unlock (SiteMu p)] w)"
  by (simp add: updateStatus_def)

lemma updateStatus_Status:
  "deref w p = Some s \<Longrightarrow>
   fst (updateStatus p status now w) = Inr () \<and>
   map_option Status (deref (snd (updateStatus p status now w)) p) = Some status"
  by (simp add: updateStatus_result deref_heap_update)

lemma trace_updateStatus:
  "deref w p = Some s \<Longrightarrow>
   \<exists>evs. trace (snd (updateStatus p status now w)) = trace w @ evs"
  by (simp add: updateStatus_result)

lemma Check_result:
  assumes "deref w p = Some s" and "client s = Some c"
  shows "Check p r now w =
     (Inr (case r of TransportError e \<Rightarrow> Some (ConnectionError e)
           | Response code \<Rightarrow> if code \<ge> 400 then Some (HTTPError code) else None),
      snd (updateStatus p
             (case r of TransportError e \<Rightarrow> statusError
              | Response code \<Rightarrow> if code \<ge> 400 then statusDown else statusUp)
             now (emit [HTTPGet (URL s)] w)))"
proof -
  have d: "deref (emit [HTTPGet (URL s)] w) p = Some s" using assms(1) by simp
  show ?thesis
    using assms by (simp add: Check_def Let_def updateStatus_result [OF d] split: http_result.splits)
qed

lemma EnableSite_result:
  "sites w siteID = Some p \<Longrightarrow> deref w p = Some s \<Longrightarrow>
   EnableSite siteID w =
     (Inr (),
      emit [Lock ManagerMu, Store p FEnabled,
            Slog LevelInfo ''Site monitoring enabled'' [(''site'', AStr (URL s))],
            Unlock ManagerMu]
        (w\<lparr>heap := (heap w)[p := s\<lparr>Enabled := True\<rparr>]\<rparr>))"
  by (simp add: EnableSite_def)

lemma DisableSite_result:
  "sites w siteID = Some p \<Longrightarrow> deref w p = Some s \<Longrightarrow>
   DisableSite siteID w =
     (Inr (),
      emit [Lock ManagerMu, Store p FEnabled,
            Slog LevelInfo ''Site monitoring disabled'' [(''site'', AStr (URL s))],
            Unlock ManagerMu]
        (w\<lparr>heap := (heap w)[p := s\<lparr>Enabled := False\<rparr>]\<rparr>))"
  by (simp add: DisableSite_def)

lemma task_tick_disabled:
  "i < length (tasks w) \<Longrightarrow> t_state (tasks w ! i) = Polling \<Longrightarrow>
   deref w (t_site (tasks w ! i)) = Some s \<Longrightarrow> \<not> Enabled s \<Longrightarrow>
   task_tick i r now w = (Inr (), w)"
  by (simp add: task_tick_def)

lemma task_tick_enabled:
  assumes "i < length (tasks w)" and "t_state (tasks w ! i) = Polling"
    and "t_site (tasks w ! i) = p"
    and "deref w p = Some s" and "Enabled s" and "client s = Some cl"
  shows "task_tick i r now w =
     (Inr (),
      case fst (Check p r now w) of
        Inr (Some err) \<Rightarrow>
          emit [Slog LevelError ''Site check failed''
                  [(''site'', AStr (URL s)), (''error'', AErr err)]]
            (snd (Check p r now w))
      | _ \<Rightarrow> snd (Check p r now w))"
  using assms
  by (simp add: task_tick_def Check_result [OF assms(4) assms(6)] split: http_result.splits)

lemma fold_tick_disabled:
  "i < length (tasks w) \<Longrightarrow> t_state (tasks w ! i) = Polling \<Longrightarrow>
   deref w (t_site (tasks w ! i)) = Some s \<Longrightarrow> \<not> Enabled s \<Longrightarrow>
   fold (\<lambda>(r, now) w. snd (task_tick i r now w)) wakes w = w"
  by (induction wakes) (auto simp: task_tick_disabled)

subsection \<open>The example states\<close>

lemma ex_new_eq:
  "ex_new = \<lparr>heap = [ex_site], sites = Map.empty, ctxs = [], tasks = [], trace = []\<rparr>"
  by (simp add: ex_new_def ex_site_def NewSite_def NewManager_def DefaultClientConfig_def)

lemma ex_registered_eq:
  "ex_registered =
     \<lparr>heap = [ex_site\<lparr>cancelFunc := Some 0\<rparr>], sites = [1 \<mapsto> 0], ctxs = [False],
      tasks = [\<lparr>t_ctx = 0, t_site = 0, t_state = Spawned\<rparr>],
      trace = [Lock ManagerMu, Store 0 FCancelFunc, MapStore 1, Go 0,
               Slog LevelInfo ''Monitoring started'' [(''site'', AStr ''http://example.com'')],
               Unlock ManagerMu]\<rparr>"
  by (simp add: ex_registered_def ex_new_eq RegisterSite_def deref_def emit_def ex_site_def)

lemma ex_polling_eq:
  "ex_polling = ex_registered\<lparr>tasks := [\<lparr>t_ctx = 0, t_site = 0, t_state = Polling\<rparr>]\<rparr>"
  by (simp add: ex_polling_def ex_registered_eq task_start_def deref_def ex_site_def Second_def)

lemma deref_ex_new: "deref ex_new 0 = Some ex_site"
  by (simp add: ex_new_eq deref_def)

lemma client_ex_site: "client ex_site = Some ex_client"
  by (simp add: ex_site_def ex_client_def)

lemma deref_ex_polling: "deref ex_polling 0 = Some (ex_site\<lparr>cancelFunc := Some 0\<rparr>)"
  by (simp add: ex_polling_eq ex_registered_eq deref_def)

lemma sites_ex_polling: "sites ex_polling 1 = Some 0"
  by (simp add: ex_polling_eq ex_registered_eq)

lemma ex_disabled_eq:
  "ex_disabled =
     emit [Lock ManagerMu, Store 0 FEnabled,
           Slog LevelInfo ''Site monitoring disabled'' [(''site'', AStr ''http://example.com'')],
           Unlock ManagerMu]
       (ex_polling\<lparr>heap := [ex_site\<lparr>cancelFunc := Some 0, Enabled := False\<rparr>]\<rparr>)"
  unfolding ex_disabled_def
  by (simp add: DisableSite_result [OF sites_ex_polling deref_ex_polling])
     (simp add: ex_polling_eq ex_registered_eq ex_site_def)

lemma run_ex_check:
  "heap (snd (run [OpNewSite 1 ''http://example.com'' Second DefaultClientConfig,
                   OpCheck 0 (Response 500) 5] NewManager)) =
   [ex_site\<lparr>Status := statusDown, StatusChangedAt := 5\<rparr>]"
proof -
  have n: "snd (NewSite 1 ''http://example.com'' Second DefaultClientConfig NewManager) = ex_new"
    by (simp add: ex_new_def)
  have d: "deref (emit [HTTPGet (URL ex_site)] ex_new) 0 = Some ex_site"
    using deref_ex_new by simp
  have s: "Status ex_site \<noteq> statusDown"
    by (simp add: ex_site_def statusDown_def)
  show ?thesis
    by (simp add: n discard_def Check_result [OF deref_ex_new client_ex_site]
        updateStatus_result [OF d] s)
      (simp add: ex_new_eq)
qed

subsection \<open>The status invariant is kept by every operation\<close>

lemma status_inv_emit [simp]: "status_inv (emit evs w) = status_inv w"
  by (simp add: status_inv_def)

lemma status_inv_fields [simp]:
  "status_inv (w\<lparr>sites := m\<rparr>) = status_inv w"
  "status_inv (w\<lparr>ctxs := cs\<rparr>) = status_inv w"
  "status_inv (w\<lparr>tasks := ts\<rparr>) = status_inv w"
  by (simp_all add: status_inv_def)

lemma status_inv_update:
  assumes "status_inv w"
    and "Status s' \<in> {[], statusUp, statusDown, statusError, statusPaused}"
  shows "status_inv (w\<lparr>heap := (heap w)[p := s']\<rparr>)"
proof -
  have "set ((heap w)[p := s']) \<subseteq> insert s' (set (heap w))"
    by (rule set_update_subset_insert)
  then show ?thesis
    using assms unfolding status_inv_def by auto
qed

lemma status_inv_keep:
  "status_inv w \<Longrightarrow> deref w p = Some s \<Longrightarrow> Status s' = Status s \<Longrightarrow>
   status_inv (w\<lparr>heap := (heap w)[p := s']\<rparr>)"
  using deref_in_heap [of w p s] by (intro status_inv_update) (auto simp: status_inv_def)

lemma status_inv_NewManager: "status_inv NewManager"
  by (simp add: status_inv_def NewManager_def)

lemma status_inv_NewSite:
  "status_inv w \<Longrightarrow> status_inv (snd (NewSite sid url interval config w))"
  by (simp add: status_inv_def NewSite_def)

lemma status_inv_updateStatus:
  "status_inv w \<Longrightarrow> status \<in> {statusUp, statusDown, statusError} \<Longrightarrow>
   status_inv (snd (updateStatus p status now w))"
  by (cases "deref w p") (auto simp: updateStatus_def intro!: status_inv_update)

lemma status_inv_Check:
  assumes "status_inv w"
  shows "status_inv (snd (Check p r now w))"
proof (cases "deref w p")
  case None
  then show ?thesis using assms by (simp add: Check_def)
next
  case (Some s)
  show ?thesis
  proof (cases "client s")
    case None
    then show ?thesis using assms Some by (simp add: Check_def)
  next
    case (Some c)
    have "status_inv (emit [HTTPGet (URL s)] w)" using assms by simp
    then show ?thesis
      by (simp add: Check_result [OF \<open>deref w p = Some s\<close> Some] status_inv_updateStatus
          split: http_result.splits)
  qed
qed

lemma status_inv_RegisterSite:
  "status_inv w \<Longrightarrow> status_inv (snd (RegisterSite p w))"
  by (cases "deref w p") (auto simp: RegisterSite_def Let_def intro!: status_inv_keep)

lemma status_inv_RevokeSite:
  "status_inv w \<Longrightarrow> status_inv (snd (RevokeSite siteID w))"
  by (auto simp: RevokeSite_def split: option.splits)

lemma status_inv_EnableSite:
  "status_inv w \<Longrightarrow> status_inv (snd (EnableSite siteID w))"
  by (auto simp: EnableSite_def split: option.splits intro!: status_inv_keep)

lemma status_inv_DisableSite:
  "status_inv w \<Longrightarrow> status_inv (snd (DisableSite siteID w))"
  by (auto simp: DisableSite_def split: option.splits intro!: status_inv_keep)

lemma status_inv_task_start:
  "status_inv w \<Longrightarrow> status_inv (snd (task_start i w))"
  by (auto simp: task_start_def Let_def split: option.splits)

lemma status_inv_task_done:
  "status_inv w \<Longrightarrow> status_inv (snd (task_done i w))"
  by (auto simp: task_done_def Let_def split: option.splits)

lemma status_inv_task_tick:
  assumes "status_inv w"
  shows "status_inv (snd (task_tick i r now w))"
proof -
  have "status_inv w'" if "Check p r now w = (res, w')" for p res w'
    using status_inv_Check [OF assms, of p r now] that by simp
  then show ?thesis
    using assms
    by (auto simp: task_tick_def Let_def split: option.splits prod.splits sum.splits)
qed

lemma status_inv_step: "status_inv w \<Longrightarrow> status_inv (snd (step x w))"
  by (cases x)
    (simp_all add: discard_def status_inv_NewSite status_inv_Check status_inv_RegisterSite
      status_inv_RevokeSite status_inv_EnableSite status_inv_DisableSite status_inv_task_start
      status_inv_task_tick status_inv_task_done)

lemma status_inv_run: "status_inv w \<Longrightarrow> status_inv (snd (run xs w))"
proof (induction xs arbitrary: w)
  case Nil
  then show ?case by simp
next
  case (Cons x xs)
  have "status_inv (snd (step x w))"
    using Cons.prems by (rule status_inv_step)
  then show ?case
    using Cons.IH [of "snd (step x w)"] by (simp split: sum.splits)
qed

subsection \<open>The fan-out loop\<close>

lemma notify_each_eq:
  "notify_each notify st obs errors =
     (errors @ List.map_filter (\<lambda>ob. fst (notify ob st)) obs,
      map (\<lambda>ob. snd (notify ob st)) obs)"
proof (induction obs arbitrary: errors)
  case Nil
  then show ?case by (simp add: List.map_filter_simps)
next
  case (Cons ob obs)
  then show ?case
    by (cases "notify ob st") (auto simp: List.map_filter_simps split: option.splits)
qed

lemma length_map_filter:
  "length (List.map_filter f xs) = length (filter (\<lambda>x. f x \<noteq> None) xs)"
  by (induction xs) (auto simp: List.map_filter_simps split: option.splits)

lemma map_filter_Nil_iff:
  "(List.map_filter f xs = []) = (\<forall>x \<in> set xs. f x = None)"
  by (induction xs) (auto simp: List.map_filter_simps split: option.splits)

subsection \<open>Which operations delete from the registry\<close>

lemma sites_updateStatus: "sites (snd (updateStatus p status now w)) = sites w"
  by (simp add: updateStatus_def split: option.splits)

lemma sites_Check: "sites (snd (Check p r now w)) = sites w"
proof (cases "deref w p")
  case None
  then show ?thesis by (simp add: Check_def)
next
  case (Some s)
  show ?thesis
  proof (cases "client s")
    case None
    then show ?thesis using Some by (simp add: Check_def)
  next
    case (Some c)
    show ?thesis
      by (simp add: Check_result [OF \<open>deref w p = Some s\<close> Some] sites_updateStatus)
  qed
qed

lemma sites_NewSite: "sites (snd (NewSite sid url interval config w)) = sites w"
  by (simp add: NewSite_def)

lemma sites_RegisterSite:
  "sites w k \<noteq> None \<Longrightarrow> sites (snd (RegisterSite p w)) k \<noteq> None"
  by (auto simp: RegisterSite_def Let_def split: option.splits)

lemma sites_EnableSite: "sites (snd (EnableSite siteID w)) = sites w"
  by (simp add: EnableSite_def split: option.splits)

lemma sites_DisableSite: "sites (snd (DisableSite siteID w)) = sites w"
  by (simp add: DisableSite_def split: option.splits)

lemma sites_task_start: "sites (snd (task_start i w)) = sites w"
  by (simp add: task_start_def Let_def split: option.splits)

lemma sites_task_tick: "sites (snd (task_tick i r now w)) = sites w"
proof -
  have "sites w' = sites w" if "Check p r now w = (res, w')" for p res w'
    using sites_Check [of p r now w] that by simp
  then show ?thesis
    by (auto simp: task_tick_def Let_def split: option.splits prod.splits sum.splits)
qed

lemma sites_RevokeSite:
  "sites w k \<noteq> None \<Longrightarrow> sites (snd (RevokeSite siteID w)) k = None \<Longrightarrow> k = siteID"
  by (auto simp: RevokeSite_def split: option.splits if_splits)

lemma sites_task_done:
  "sites w k \<noteq> None \<Longrightarrow> sites (snd (task_done i w)) k = None \<Longrightarrow>
   i < length (tasks w) \<and> t_state (tasks w ! i) = Polling \<and>
   t_ctx (tasks w ! i) < length (ctxs w) \<and> ctxs w ! t_ctx (tasks w ! i) \<and>
   map_option ID (deref w (t_site (tasks w ! i))) = Some k"
  by (auto simp: task_done_def Let_def split: option.splits if_splits)

lemma step_deletes:
  assumes "sites w k \<noteq> None" and "sites (snd (step x w)) k = None"
  shows "x = OpRevokeSite k \<or>
         (\<exists>i. x = OpTaskDone i \<and> i < length (tasks w) \<and> t_state (tasks w ! i) = Polling \<and>
              t_ctx (tasks w ! i) < length (ctxs w) \<and> ctxs w ! t_ctx (tasks w ! i) \<and>
              map_option ID (deref w (t_site (tasks w ! i))) = Some k)"
proof (cases x)
  case (OpRegisterSite p)
  then show ?thesis
    using assms sites_RegisterSite [of w k p] by (simp add: discard_def)
next
  case (OpRevokeSite siteID)
  then show ?thesis
    using assms sites_RevokeSite [of w k siteID] by simp
next
  case (OpTaskDone i)
  then show ?thesis
    using assms sites_task_done [of w k i] by simp
qed (use assms in \<open>simp_all add: discard_def sites_NewSite sites_Check sites_EnableSite sites_DisableSite
      sites_task_start sites_task_tick\<close>)

lemma RevokeSite_result:
  assumes "sites w siteID = Some p" and "deref w p = Some s" and "cancelFunc s = Some c"
    and "c < length (ctxs w)"
  shows "RevokeSite siteID w =
           (Inr (),
            emit [Lock ManagerMu, Cancel c, MapDelete siteID,
                  Slog LevelInfo ''Monitoring Stopped'' [(''Site'', AStr (URL s))],
                  Unlock ManagerMu]
              (w\<lparr>ctxs := (ctxs w)[c := True], sites := (sites w)(siteID := None)\<rparr>)) \<and>
         sites (snd (RevokeSite siteID w)) siteID = None \<and>
         ctxs (snd (RevokeSite siteID w)) ! c \<and>
         tasks (snd (RevokeSite siteID w)) = tasks w \<and>
         (\<forall>i. i < length (tasks w) \<and> tasks w ! i = \<lparr>t_ctx = c, t_site = p, t_state = Polling\<rparr> \<longrightarrow>
            task_done i (snd (RevokeSite siteID w)) =
              (Inr (),
               emit [Slog LevelInfo ''Monitoring stopperd'' [(''site'', AStr (URL s))],
                     Lock ManagerMu, MapDelete (ID s), Unlock ManagerMu]
                 (snd (RevokeSite siteID w)
                    \<lparr>sites := (sites (snd (RevokeSite siteID w)))(ID s := None),
                     tasks := (tasks w)[i := \<lparr>t_ctx = c, t_site = p, t_state = Exited\<rparr>]\<rparr>)))"
proof -
  let ?w' = "emit [Lock ManagerMu, Cancel c, MapDelete siteID,
                  Slog LevelInfo ''Monitoring Stopped'' [(''Site'', AStr (URL s))],
                  Unlock ManagerMu]
              (w\<lparr>ctxs := (ctxs w)[c := True], sites := (sites w)(siteID := None)\<rparr>)"
  have r: "RevokeSite siteID w = (Inr (), ?w')"
    using assms by (simp add: RevokeSite_def)
  have d: "deref ?w' p = Some s"
    using assms(2) by (simp add: deref_def split: if_splits)
  show ?thesis
    unfolding r using assms(4) d
    by (simp add: task_done_def Let_def)
qed

lemma ex_reregistered_facts:
  "sites ex_reregistered 1 = Some 0"
  "ctxs ex_reregistered = [True, False]"
  "tasks ex_reregistered =
     [\<lparr>t_ctx = 0, t_site = 0, t_state = Polling\<rparr>, \<lparr>t_ctx = 1, t_site = 0, t_state = Spawned\<rparr>]"
  "deref ex_reregistered 0 = Some (ex_site\<lparr>cancelFunc := Some 1\<rparr>)"
  by (simp_all add: ex_reregistered_def ex_polling_eq ex_registered_eq RevokeSite_def
      RegisterSite_def deref_def ex_site_def)

section \<open>The claims\<close>

text \<open>
  C1: for a site with a client, one call of \<open>Check\<close> classifies the outcome of the GET:
  when the request fails, the status becomes \<open>error\<close> and an error wrapping the failure
  is returned; when a response arrives with a status code of 400 or more, the status
  becomes \<open>down\<close> and an error is returned; when a response arrives with a status code
  below 400, the status becomes \<open>up\<close> and nil is returned.
\<close>

theorem Check_classifies:
  assumes "deref w p = Some s" and "client s = Some c"
  shows "(\<forall>e. r = TransportError e \<longrightarrow>
            fst (Check p r now w) = Inr (Some (ConnectionError e)) \<and>
            map_option Status (deref (snd (Check p r now w)) p) = Some statusError) \<and>
         (\<forall>code. r = Response code \<and> code \<ge> 400 \<longrightarrow>
            fst (Check p r now w) = Inr (Some (HTTPError code)) \<and>
            map_option Status (deref (snd (Check p r now w)) p) = Some statusDown) \<and>
         (\<forall>code. r = Response code \<and> code < 400 \<longrightarrow>
            fst (Check p r now w) = Inr None \<and>
            map_option Status (deref (snd (Check p r now w)) p) = Some statusUp)"
proof -
  have d: "deref (emit [HTTPGet (URL s)] w) p = Some s" using assms(1) by simp
  show ?thesis
    by (simp add: Check_result [OF assms] updateStatus_Status [OF d])
qed

theorem Check_classifies_witness:
  "deref ex_new 0 = Some ex_site \<and> client ex_site = Some ex_client \<and>
   fst (Check 0 (TransportError ''dial tcp: timeout'') 5 ex_new) =
     Inr (Some (ConnectionError ''dial tcp: timeout'')) \<and>
   map_option Status (deref (snd (Check 0 (TransportError ''dial tcp: timeout'') 5 ex_new)) 0) =
     Some statusError \<and>
   (500::int) \<ge> 400 \<and>
   fst (Check 0 (Response 500) 5 ex_new) = Inr (Some (HTTPError 500)) \<and>
   map_option Status (deref (snd (Check 0 (Response 500) 5 ex_new)) 0) = Some statusDown \<and>
   (200::int) < 400 \<and>
   fst (Check 0 (Response 200) 5 ex_new) = Inr None \<and>
   map_option Status (deref (snd (Check 0 (Response 200) 5 ex_new)) 0) = Some statusUp"
  using deref_ex_new client_ex_site
    Check_classifies [OF deref_ex_new client_ex_site, of "TransportError ''dial tcp: timeout''" 5]
    Check_classifies [OF deref_ex_new client_ex_site, of "Response 500" 5]
    Check_classifies [OF deref_ex_new client_ex_site, of "Response 200" 5]
  by simp

text \<open>
  C2: when the ID of the site is already a key of the registry, \<open>RegisterSite\<close> returns
  the "already being monitored" error and does nothing but take and release the
  registry's mutex: the registry, its size, the heap, the contexts and the goroutines are
  as before, and the trace has no \<open>Go\<close> event.
\<close>

theorem RegisterSite_duplicate:
  assumes "deref w p = Some s" and "sites w (ID s) = Some q"
  shows "RegisterSite p w =
           (Inr (Some (AlreadyMonitored (URL s))), emit [Lock ManagerMu, Unlock ManagerMu] w) \<and>
         sites (snd (RegisterSite p w)) = sites w \<and>
         card (dom (sites (snd (RegisterSite p w)))) = card (dom (sites w)) \<and>
         heap (snd (RegisterSite p w)) = heap w \<and>
         ctxs (snd (RegisterSite p w)) = ctxs w \<and>
         tasks (snd (RegisterSite p w)) = tasks w"
  using assms by (simp add: RegisterSite_def)

theorem RegisterSite_duplicate_witness:
  "deref ex_registered 0 = Some (ex_site\<lparr>cancelFunc := Some 0\<rparr>) \<and>
   sites ex_registered (ID (ex_site\<lparr>cancelFunc := Some 0\<rparr>)) = Some 0 \<and>
   RegisterSite 0 ex_registered =
     (Inr (Some (AlreadyMonitored ''http://example.com'')),
      emit [Lock ManagerMu, Unlock ManagerMu] ex_registered) \<and>
   tasks (snd (RegisterSite 0 ex_registered)) = [\<lparr>t_ctx = 0, t_site = 0, t_state = Spawned\<rparr>]"
proof -
  have h1: "deref ex_registered 0 = Some (ex_site\<lparr>cancelFunc := Some 0\<rparr>)"
    by (simp add: ex_registered_eq deref_def)
  have h2: "sites ex_registered (ID (ex_site\<lparr>cancelFunc := Some 0\<rparr>)) = Some 0"
    by (simp add: ex_registered_eq ex_site_def)
  show ?thesis
    using h1 h2 RegisterSite_duplicate [OF h1 h2]
    by (simp add: ex_site_def ex_registered_eq)
qed

text \<open>
  C3 as stated fails: two calls of \<open>Check\<close> at one reading of the clock, the first on a
  healthy response and the second on a response with code 500, change \<open>Status\<close> from
  \<open>up\<close> to \<open>down\<close> and leave \<open>StatusChangedAt\<close> at the value it had.
\<close>

theorem updateStatus_same_clock_counterexample:
  "map_option Status (deref (snd (Check 0 (Response 200) 5 ex_new)) 0) = Some statusUp \<and>
   map_option StatusChangedAt (deref (snd (Check 0 (Response 200) 5 ex_new)) 0) = Some 5 \<and>
   map_option Status
     (deref (snd (Check 0 (Response 500) 5 (snd (Check 0 (Response 200) 5 ex_new)))) 0) =
     Some statusDown \<and>
   map_option StatusChangedAt
     (deref (snd (Check 0 (Response 500) 5 (snd (Check 0 (Response 200) 5 ex_new)))) 0) =
     Some 5 \<and>
   statusUp \<noteq> statusDown"
  by (simp add: ex_new_eq ex_site_def Check_def updateStatus_def deref_def emit_def
      statusUp_def statusDown_def)

text \<open>
  C3, as amended: \<open>updateStatus\<close> stores \<open>StatusChangedAt\<close> exactly when it stores
  \<open>Status\<close>, both inside one critical section of the site's own mutex. Writing the
  status the site already has leaves the site as it is; writing another one sets
  \<open>Status\<close> to it and \<open>StatusChangedAt\<close> to the reading of the clock. So
  \<open>StatusChangedAt\<close> changes only if \<open>Status\<close> changes, and it changes if and only if
  \<open>Status\<close> changes whenever the reading of the clock differs from the stored timestamp.
\<close>

theorem updateStatus_together:
  assumes "deref w p = Some s"
  shows "fst (updateStatus p status now w) = Inr () \<and>
         trace (snd (updateStatus p status now w)) =
           trace w @
           (if Status s = status then [Lock (SiteMu p), Unlock (SiteMu p)]
            else [Lock (SiteMu p), Store p FStatus, Store p FStatusChangedAt,
                  Unlock (SiteMu p)]) \<and>
         (Status s = status \<longrightarrow> deref (snd (updateStatus p status now w)) p = Some s) \<and>
         (Status s \<noteq> status \<longrightarrow>
            deref (snd (updateStatus p status now w)) p =
              Some (s\<lparr>Status := status, StatusChangedAt := now\<rparr>)) \<and>
         (\<forall>s'. deref (snd (updateStatus p status now w)) p = Some s' \<longrightarrow>
            (StatusChangedAt s' \<noteq> StatusChangedAt s \<longrightarrow> Status s' \<noteq> Status s) \<and>
            (now \<noteq> StatusChangedAt s \<longrightarrow>
               (StatusChangedAt s' \<noteq> StatusChangedAt s) = (Status s' \<noteq> Status s)))"
  using assms
  by (auto simp: updateStatus_result deref_heap_update)

theorem updateStatus_together_witness:
  "deref ex_new 0 = Some ex_site \<and> Status ex_site \<noteq> statusUp \<and> Status ex_site = [] \<and>
   (5::int) \<noteq> StatusChangedAt ex_site \<and>
   deref (snd (updateStatus 0 statusUp 5 ex_new)) 0 =
     Some (ex_site\<lparr>Status := statusUp, StatusChangedAt := 5\<rparr>) \<and>
   trace (snd (updateStatus 0 statusUp 5 ex_new)) =
     [Lock (SiteMu 0), Store 0 FStatus, Store 0 FStatusChangedAt, Unlock (SiteMu 0)] \<and>
   deref (snd (updateStatus 0 [] 5 ex_new)) 0 = Some ex_site \<and>
   trace (snd (updateStatus 0 [] 5 ex_new)) = [Lock (SiteMu 0), Unlock (SiteMu 0)]"
proof -
  have h: "deref ex_new 0 = Some ex_site"
    by (simp add: ex_new_eq deref_def)
  show ?thesis
    using h updateStatus_together [OF h, of statusUp 5] updateStatus_together [OF h, of "[]" 5]
    by (simp add: ex_site_def statusUp_def ex_new_eq)
qed

text \<open>
  C4: what \<open>RevokeSite\<close> does for an ID that the registry does not hold, here any ID on
  the registry of \<open>NewManager\<close>: it panics with a nil pointer dereference, since the
  \<open>else\<close> branch reads \<open>site.URL\<close> of the nil \<open>site\<close>; nothing is logged.
\<close>

theorem RevokeSite_unknown_panics:
  "RevokeSite siteID NewManager =
     (Inl NilPointerDereference, emit [Lock ManagerMu, Unlock ManagerMu] NewManager)"
  by (simp add: RevokeSite_def NewManager_def)

text \<open>
  C5 as stated fails: \<open>RevokeSite\<close> on a registered ID returns with the entry already
  deleted, while the site's goroutine has not run at all.
\<close>

theorem RevokeSite_removes_entry_counterexample:
  "sites ex_registered 1 = Some 0 \<and>
   fst (RevokeSite 1 ex_registered) = Inr () \<and>
   sites (snd (RevokeSite 1 ex_registered)) 1 = None \<and>
   tasks (snd (RevokeSite 1 ex_registered)) = [\<lparr>t_ctx = 0, t_site = 0, t_state = Spawned\<rparr>]"
  by (simp add: ex_registered_eq RevokeSite_def deref_def ex_site_def)

text \<open>
  C5, as amended: for an ID of the registry, whose site holds the cancel function of a
  context, \<open>RevokeSite\<close> cancels that context and itself deletes the ID from the registry,
  under the registry's mutex, before it returns; the goroutines are untouched. When the
  site's goroutine then takes the \<open>ctx.Done()\<close> case, it deletes the site's ID from the
  registry once more and returns. These are the only two paths that delete an entry: an
  operation after which a key of the registry is gone is \<open>RevokeSite\<close> on that key, or
  the \<open>ctx.Done()\<close> case of a goroutine in its loop whose context is cancelled and whose
  site has that key as its ID.
\<close>

theorem registry_deletion_paths:
  "(\<forall>p s c. sites w siteID = Some p \<and> deref w p = Some s \<and> cancelFunc s = Some c \<and>
            c < length (ctxs w) \<longrightarrow>
      RevokeSite siteID w =
        (Inr (),
         emit [Lock ManagerMu, Cancel c, MapDelete siteID,
               Slog LevelInfo ''Monitoring Stopped'' [(''Site'', AStr (URL s))],
               Unlock ManagerMu]
           (w\<lparr>ctxs := (ctxs w)[c := True], sites := (sites w)(siteID := None)\<rparr>)) \<and>
      sites (snd (RevokeSite siteID w)) siteID = None \<and>
      ctxs (snd (RevokeSite siteID w)) ! c \<and>
      tasks (snd (RevokeSite siteID w)) = tasks w \<and>
      (\<forall>i. i < length (tasks w) \<and> tasks w ! i = \<lparr>t_ctx = c, t_site = p, t_state = Polling\<rparr> \<longrightarrow>
         task_done i (snd (RevokeSite siteID w)) =
           (Inr (),
            emit [Slog LevelInfo ''Monitoring stopperd'' [(''site'', AStr (URL s))],
                  Lock ManagerMu, MapDelete (ID s), Unlock ManagerMu]
              (snd (RevokeSite siteID w)
                 \<lparr>sites := (sites (snd (RevokeSite siteID w)))(ID s := None),
                  tasks := (tasks w)[i := \<lparr>t_ctx = c, t_site = p, t_state = Exited\<rparr>]\<rparr>)))) \<and>
   (\<forall>x k. sites w k \<noteq> None \<and> sites (snd (step x w)) k = None \<longrightarrow>
      x = OpRevokeSite k \<or>
      (\<exists>i. x = OpTaskDone i \<and> i < length (tasks w) \<and> t_state (tasks w ! i) = Polling \<and>
           t_ctx (tasks w ! i) < length (ctxs w) \<and> ctxs w ! t_ctx (tasks w ! i) \<and>
           map_option ID (deref w (t_site (tasks w ! i))) = Some k))"
proof (intro conjI allI impI)
  fix x k
  assume "sites w k \<noteq> None \<and> sites (snd (step x w)) k = None"
  then show "x = OpRevokeSite k \<or>
      (\<exists>i. x = OpTaskDone i \<and> i < length (tasks w) \<and> t_state (tasks w ! i) = Polling \<and>
           t_ctx (tasks w ! i) < length (ctxs w) \<and> ctxs w ! t_ctx (tasks w ! i) \<and>
           map_option ID (deref w (t_site (tasks w ! i))) = Some k)"
    using step_deletes [of w k x] by blast
qed (use RevokeSite_result [of w siteID] in \<open>blast+\<close>)

theorem registry_deletion_paths_witness:
  "sites ex_polling 1 = Some 0 \<and>
   deref ex_polling 0 = Some (ex_site\<lparr>cancelFunc := Some 0\<rparr>) \<and>
   cancelFunc (ex_site\<lparr>cancelFunc := Some 0\<rparr>) = Some 0 \<and>
   0 < length (ctxs ex_polling) \<and>
   0 < length (tasks ex_polling) \<and>
   tasks ex_polling ! 0 = \<lparr>t_ctx = 0, t_site = 0, t_state = Polling\<rparr> \<and>
   fst (RevokeSite 1 ex_polling) = Inr () \<and>
   sites (snd (RevokeSite 1 ex_polling)) 1 = None \<and>
   fst (task_done 0 (snd (RevokeSite 1 ex_polling))) = Inr () \<and>
   tasks (snd (task_done 0 (snd (RevokeSite 1 ex_polling)))) =
     [\<lparr>t_ctx = 0, t_site = 0, t_state = Exited\<rparr>] \<and>
   sites ex_polling 1 \<noteq> None \<and>
   sites (snd (step (OpRevokeSite 1) ex_polling)) 1 = None \<and>
   sites ex_reregistered 1 \<noteq> None \<and>
   sites (snd (step (OpTaskDone 0) ex_reregistered)) 1 = None \<and>
   (\<exists>i. OpTaskDone 0 = OpTaskDone i \<and> i < length (tasks ex_reregistered) \<and>
        t_state (tasks ex_reregistered ! i) = Polling \<and>
        t_ctx (tasks ex_reregistered ! i) < length (ctxs ex_reregistered) \<and>
        ctxs ex_reregistered ! t_ctx (tasks ex_reregistered ! i) \<and>
        map_option ID (deref ex_reregistered (t_site (tasks ex_reregistered ! i))) = Some 1)"
proof -
  have h1: "sites ex_polling 1 = Some 0"
    by (simp add: ex_polling_eq ex_registered_eq)
  have h2: "deref ex_polling 0 = Some (ex_site\<lparr>cancelFunc := Some 0\<rparr>)"
    by (simp add: ex_polling_eq ex_registered_eq deref_def)
  have h3: "cancelFunc (ex_site\<lparr>cancelFunc := Some 0\<rparr>) = Some 0"
    by simp
  have h4: "0 < length (ctxs ex_polling)"
    by (simp add: ex_polling_eq ex_registered_eq)
  have h5: "0 < length (tasks ex_polling) \<and>
            tasks ex_polling ! 0 = \<lparr>t_ctx = 0, t_site = 0, t_state = Polling\<rparr>"
    by (simp add: ex_polling_eq ex_registered_eq)
  note t = registry_deletion_paths [of ex_polling 1, THEN conjunct1, rule_format,
      OF conjI [OF h1 conjI [OF h2 conjI [OF h3 h4]]]]
  have a: "fst (RevokeSite 1 ex_polling) = Inr ()"
    using t by simp
  have b: "sites (snd (RevokeSite 1 ex_polling)) 1 = None"
    using t by blast
  have c: "task_done 0 (snd (RevokeSite 1 ex_polling)) =
             (Inr (),
              emit [Slog LevelInfo ''Monitoring stopperd''
                      [(''site'', AStr (URL (ex_site\<lparr>cancelFunc := Some 0\<rparr>)))],
                    Lock ManagerMu, MapDelete (ID (ex_site\<lparr>cancelFunc := Some 0\<rparr>)),
                    Unlock ManagerMu]
                (snd (RevokeSite 1 ex_polling)
                   \<lparr>sites := (sites (snd (RevokeSite 1 ex_polling)))
                              (ID (ex_site\<lparr>cancelFunc := Some 0\<rparr>) := None),
                    tasks := (tasks ex_polling)[0 := \<lparr>t_ctx = 0, t_site = 0, t_state = Exited\<rparr>]\<rparr>))"
    using t h5 by blast
  have d: "tasks (snd (task_done 0 (snd (RevokeSite 1 ex_polling)))) =
             [\<lparr>t_ctx = 0, t_site = 0, t_state = Exited\<rparr>]"
    unfolding c by (simp add: ex_polling_eq ex_registered_eq)
  have e: "fst (task_done 0 (snd (RevokeSite 1 ex_polling))) = Inr ()"
    unfolding c by simp
  have f1: "sites ex_polling 1 \<noteq> None"
    using h1 by simp
  have f2: "sites (snd (step (OpRevokeSite 1) ex_polling)) 1 = None"
    using b by simp
  have g1: "sites ex_reregistered 1 \<noteq> None"
    by (simp add: ex_reregistered_facts)
  have g2: "sites (snd (step (OpTaskDone 0) ex_reregistered)) 1 = None"
    by (simp add: task_done_def ex_reregistered_facts ex_site_def)
  have g: "\<exists>i. OpTaskDone 0 = OpTaskDone i \<and> i < length (tasks ex_reregistered) \<and>
        t_state (tasks ex_reregistered ! i) = Polling \<and>
        t_ctx (tasks ex_reregistered ! i) < length (ctxs ex_reregistered) \<and>
        ctxs ex_reregistered ! t_ctx (tasks ex_reregistered ! i) \<and>
        map_option ID (deref ex_reregistered (t_site (tasks ex_reregistered ! i))) = Some 1"
    using registry_deletion_paths [of ex_reregistered 1, THEN conjunct2, rule_format,
        OF conjI [OF g1 g2]]
    by simp
  show ?thesis
    using h1 h2 h3 h4 h5 a b d e f1 f2 g1 g2 g by blast
qed

text \<open>
  C6: for a registered site whose goroutine is in its loop: while \<open>Enabled\<close> is false, a
  tick leaves the whole state as it is (no GET, the goroutine still in the loop), and so
  does any sequence of ticks; the same holds after \<open>DisableSite\<close>. After \<open>EnableSite\<close>,
  which leaves the goroutines and the registry as they are, the next tick runs \<open>Check\<close>:
  the GET is issued and the status is set from its outcome.
\<close>

theorem tick_checks_iff_enabled:
  assumes "i < length (tasks w)"
    and "tasks w ! i = \<lparr>t_ctx = c, t_site = p, t_state = Polling\<rparr>"
    and "deref w p = Some s" and "sites w (ID s) = Some p" and "client s = Some cl"
  shows "(\<not> Enabled s \<longrightarrow>
            task_tick i r now w = (Inr (), w) \<and>
            fold (\<lambda>(r, now) w. snd (task_tick i r now w)) wakes w = w) \<and>
         task_tick i r now (snd (DisableSite (ID s) w)) = (Inr (), snd (DisableSite (ID s) w)) \<and>
         tasks (snd (EnableSite (ID s) w)) = tasks w \<and>
         sites (snd (EnableSite (ID s) w)) = sites w \<and>
         fst (task_tick i r now (snd (EnableSite (ID s) w))) = Inr () \<and>
         (\<exists>evs. trace (snd (task_tick i r now (snd (EnableSite (ID s) w)))) =
                  trace (snd (EnableSite (ID s) w)) @ HTTPGet (URL s) # evs) \<and>
         map_option Status (deref (snd (task_tick i r now (snd (EnableSite (ID s) w)))) p) =
           Some (case r of TransportError e \<Rightarrow> statusError
                 | Response code \<Rightarrow> if code \<ge> 400 then statusDown else statusUp)"
proof -
  have st: "t_state (tasks w ! i) = Polling" and si: "t_site (tasks w ! i) = p"
    using assms(2) by simp_all
  have off: "\<not> Enabled s \<longrightarrow>
               task_tick i r now w = (Inr (), w) \<and>
               fold (\<lambda>(r, now) w. snd (task_tick i r now w)) wakes w = w"
    using assms(1) st assms(3) task_tick_disabled [of i w s r now] fold_tick_disabled [of i w s wakes]
    by (simp add: si)
  let ?wd = "snd (DisableSite (ID s) w)"
  have wd: "tasks ?wd = tasks w" "deref ?wd p = Some (s\<lparr>Enabled := False\<rparr>)"
    using assms(3) by (simp_all add: DisableSite_result [OF assms(4) assms(3)] deref_heap_update)
  have dis: "task_tick i r now ?wd = (Inr (), ?wd)"
    using assms(1) st si wd by (intro task_tick_disabled [where s = "s\<lparr>Enabled := False\<rparr>"]) simp_all
  let ?we = "snd (EnableSite (ID s) w)"
  have we: "tasks ?we = tasks w" "sites ?we = sites w" "deref ?we p = Some (s\<lparr>Enabled := True\<rparr>)"
    using assms(3) by (simp_all add: EnableSite_result [OF assms(4) assms(3)] deref_heap_update)
  have cl: "client (s\<lparr>Enabled := True\<rparr>) = Some cl" using assms(5) by simp
  have dg: "deref (emit [HTTPGet (URL (s\<lparr>Enabled := True\<rparr>))] ?we) p = Some (s\<lparr>Enabled := True\<rparr>)"
    using we(3) by simp
  have tk: "task_tick i r now ?we =
     (Inr (),
      case fst (Check p r now ?we) of
        Inr (Some err) \<Rightarrow>
          emit [Slog LevelError ''Site check failed''
                  [(''site'', AStr (URL (s\<lparr>Enabled := True\<rparr>))), (''error'', AErr err)]]
            (snd (Check p r now ?we))
      | _ \<Rightarrow> snd (Check p r now ?we))"
    by (rule task_tick_enabled [where cl = cl]) (simp_all add: we assms(1) st si cl)
  have ck: "Check p r now ?we =
     (Inr (case r of TransportError e \<Rightarrow> Some (ConnectionError e)
           | Response code \<Rightarrow> if code \<ge> 400 then Some (HTTPError code) else None),
      snd (updateStatus p
             (case r of TransportError e \<Rightarrow> statusError
              | Response code \<Rightarrow> if code \<ge> 400 then statusDown else statusUp)
             now (emit [HTTPGet (URL s)] ?we)))"
    using Check_result [OF we(3) cl, of r now] by simp
  obtain evs where evs: "trace (snd (Check p r now ?we)) = trace ?we @ HTTPGet (URL s) # evs"
    using trace_updateStatus [OF dg] unfolding ck by fastforce
  have stt: "map_option Status (deref (snd (Check p r now ?we)) p) =
           Some (case r of TransportError e \<Rightarrow> statusError
                 | Response code \<Rightarrow> if code \<ge> 400 then statusDown else statusUp)"
    unfolding ck using updateStatus_Status [OF dg] by simp
  have tr: "\<exists>evs. trace (snd (task_tick i r now ?we)) = trace ?we @ HTTPGet (URL s) # evs"
    unfolding tk using evs by (auto split: sum.splits option.splits)
  have stt': "map_option Status (deref (snd (task_tick i r now ?we)) p) =
           Some (case r of TransportError e \<Rightarrow> statusError
                 | Response code \<Rightarrow> if code \<ge> 400 then statusDown else statusUp)"
    unfolding tk using stt by (auto split: sum.splits option.splits)
  have ok: "fst (task_tick i r now ?we) = Inr ()"
    unfolding tk by simp
  show ?thesis
    using off dis we(1) we(2) ok tr stt' by blast
qed

theorem tick_checks_iff_enabled_witness:
  "0 < length (tasks ex_disabled) \<and>
   tasks ex_disabled ! 0 = \<lparr>t_ctx = 0, t_site = 0, t_state = Polling\<rparr> \<and>
   deref ex_disabled 0 = Some (ex_site\<lparr>cancelFunc := Some 0, Enabled := False\<rparr>) \<and>
   sites ex_disabled (ID (ex_site\<lparr>cancelFunc := Some 0, Enabled := False\<rparr>)) = Some 0 \<and>
   client (ex_site\<lparr>cancelFunc := Some 0, Enabled := False\<rparr>) = Some ex_client \<and>
   \<not> Enabled (ex_site\<lparr>cancelFunc := Some 0, Enabled := False\<rparr>) \<and>
   task_tick 0 (Response 200) 5 ex_disabled = (Inr (), ex_disabled) \<and>
   fold (\<lambda>(r, now) w. snd (task_tick 0 r now w))
     [(Response 200, 5), (Response 500, 6), (TransportError ''timeout'', 7)] ex_disabled =
     ex_disabled \<and>
   tasks (snd (EnableSite 1 ex_disabled)) = tasks ex_disabled \<and>
   map_option Status
     (deref (snd (task_tick 0 (Response 200) 5 (snd (EnableSite 1 ex_disabled)))) 0) =
     Some statusUp"
proof -
  let ?s = "ex_site\<lparr>cancelFunc := Some 0, Enabled := False\<rparr>"
  have h1: "0 < length (tasks ex_disabled)"
    by (simp add: ex_disabled_eq ex_polling_eq)
  have h2: "tasks ex_disabled ! 0 = \<lparr>t_ctx = 0, t_site = 0, t_state = Polling\<rparr>"
    by (simp add: ex_disabled_eq ex_polling_eq)
  have h3: "deref ex_disabled 0 = Some ?s"
    by (simp add: ex_disabled_eq) (simp add: deref_def)
  have i1: "ID ?s = 1"
    by (simp add: ex_site_def)
  have h4: "sites ex_disabled (ID ?s) = Some 0"
    unfolding i1 by (simp add: ex_disabled_eq sites_ex_polling)
  have h5: "client ?s = Some ex_client"
    by (simp add: client_ex_site)
  have h6: "\<not> Enabled ?s"
    by simp
  note t = tick_checks_iff_enabled [OF h1 h2 h3 h4 h5, unfolded i1]
  have a: "task_tick 0 (Response 200) 5 ex_disabled = (Inr (), ex_disabled)"
    using t [of "Response 200" 5] h6 by blast
  have b: "fold (\<lambda>(r, now) w. snd (task_tick 0 r now w))
     [(Response 200, 5), (Response 500, 6), (TransportError ''timeout'', 7)] ex_disabled =
     ex_disabled"
    using t [of _ _ "[(Response 200, 5), (Response 500, 6), (TransportError ''timeout'', 7)]"] h6
    by blast
  have c: "tasks (snd (EnableSite 1 ex_disabled)) = tasks ex_disabled"
    using t by blast
  have d: "map_option Status
     (deref (snd (task_tick 0 (Response 200) 5 (snd (EnableSite 1 ex_disabled)))) 0) =
     Some statusUp"
    using t [of "Response 200" 5] by simp
  show ?thesis
    using h1 h2 h3 h4 h5 h6 a b c d by blast
qed

text \<open>
  C7: \<open>Notify\<close> invokes every attached observer once with the same state; the returned
  list holds the errors of the failing observers, in order, whatever the other observers
  do, so its length is the number of failing observers; and it is empty exactly when no
  observer fails.
\<close>

theorem Notify_best_effort:
  "observers (snd (Notify notify st s)) = map (\<lambda>ob. snd (notify ob st)) (observers s) \<and>
   fst (Notify notify st s) = List.map_filter (\<lambda>ob. fst (notify ob st)) (observers s) \<and>
   length (fst (Notify notify st s)) =
     length (filter (\<lambda>ob. fst (notify ob st) \<noteq> None) (observers s)) \<and>
   (fst (Notify notify st s) = []) = (\<forall>ob \<in> set (observers s). fst (notify ob st) = None)"
  by (simp add: Notify_def notify_each_eq length_map_filter map_filter_Nil_iff)

theorem Notify_best_effort_witness:
  "observers ex_subject =
     [newMockObserver None, newMockObserver (Some ''notification error''),
      newMockObserver None] \<and>
   newMockObserver (Some ''notification error'') \<in> set (observers ex_subject) \<and>
   fst (mockNotify (newMockObserver (Some ''notification error'')) ex_state) \<noteq> None \<and>
   fst (Notify mockNotify ex_state ex_subject) = [''notification error''] \<and>
   length (fst (Notify mockNotify ex_state ex_subject)) = 1 \<and>
   observers (snd (Notify mockNotify ex_state ex_subject)) =
     [\<lparr>mo_state = ex_state, mo_err = None\<rparr>,
      \<lparr>mo_state = zeroState, mo_err = Some ''notification error''\<rparr>,
      \<lparr>mo_state = ex_state, mo_err = None\<rparr>] \<and>
   fst (Notify mockNotify ex_state (Attach (newMockObserver None) NewSubject)) = [] \<and>
   fst (mockNotify (newMockObserver None) ex_state) = None"
proof -
  have o: "observers ex_subject =
     [newMockObserver None, newMockObserver (Some ''notification error''),
      newMockObserver None]"
    by (simp add: ex_subject_def Attach_def NewSubject_def)
  have o1: "observers (Attach (newMockObserver None) NewSubject) = [newMockObserver None]"
    by (simp add: Attach_def NewSubject_def)
  have f: "fst (mockNotify (newMockObserver (Some ''notification error'')) ex_state) \<noteq> None"
    by (simp add: mockNotify_def newMockObserver_def)
  have g: "fst (mockNotify (newMockObserver None) ex_state) = None"
    by (simp add: mockNotify_def newMockObserver_def)
  note t = Notify_best_effort [of mockNotify ex_state ex_subject, unfolded o]
  note t1 = Notify_best_effort [of mockNotify ex_state "Attach (newMockObserver None) NewSubject",
      unfolded o1]
  have a: "fst (Notify mockNotify ex_state ex_subject) = [''notification error'']"
    using t by (simp add: List.map_filter_simps mockNotify_def newMockObserver_def)
  have b: "observers (snd (Notify mockNotify ex_state ex_subject)) =
     [\<lparr>mo_state = ex_state, mo_err = None\<rparr>,
      \<lparr>mo_state = zeroState, mo_err = Some ''notification error''\<rparr>,
      \<lparr>mo_state = ex_state, mo_err = None\<rparr>]"
    using t by (simp add: mockNotify_def newMockObserver_def)
  have c: "fst (Notify mockNotify ex_state (Attach (newMockObserver None) NewSubject)) = []"
    using t1 g by simp
  show ?thesis
    using o f g a b c by simp
qed

text \<open>
  C8 as stated fails: \<open>EnableSite\<close> on a registered ID takes the registry's mutex and
  not the site's; on an unknown ID it logs nothing.
\<close>

theorem EnableSite_locks_counterexample:
  "sites ex_registered 1 = Some 0 \<and>
   trace (snd (EnableSite 1 ex_registered)) =
     trace ex_registered @
     [Lock ManagerMu, Store 0 FEnabled,
      Slog LevelInfo ''Site monitoring enabled'' [(''site'', AStr ''http://example.com'')],
      Unlock ManagerMu] \<and>
   Lock ManagerMu \<in> set (trace (snd (EnableSite 1 ex_registered))) \<and>
   Lock (SiteMu 0) \<notin> set (trace (snd (EnableSite 1 ex_registered))) \<and>
   sites ex_registered 2 = None \<and>
   trace (snd (EnableSite 2 ex_registered)) =
     trace ex_registered @ [Lock ManagerMu, Unlock ManagerMu]"
  by (simp add: ex_registered_eq EnableSite_def deref_def ex_site_def)

text \<open>
  C8, as amended: \<open>EnableSite\<close> and \<open>DisableSite\<close> hold the registry's mutex for the
  whole call and never take the site's own mutex. For an ID of the registry they set the
  site's \<open>Enabled\<close> flag to true, respectively false, and log; for an unknown ID they
  change nothing and log nothing.
\<close>

theorem EnableSite_DisableSite_effect:
  "(sites w siteID = None \<longrightarrow>
      EnableSite siteID w = (Inr (), emit [Lock ManagerMu, Unlock ManagerMu] w) \<and>
      DisableSite siteID w = (Inr (), emit [Lock ManagerMu, Unlock ManagerMu] w)) \<and>
   (\<forall>p s. sites w siteID = Some p \<and> deref w p = Some s \<longrightarrow>
      EnableSite siteID w =
        (Inr (),
         emit [Lock ManagerMu, Store p FEnabled,
               Slog LevelInfo ''Site monitoring enabled'' [(''site'', AStr (URL s))],
               Unlock ManagerMu]
           (w\<lparr>heap := (heap w)[p := s\<lparr>Enabled := True\<rparr>]\<rparr>)) \<and>
      DisableSite siteID w =
        (Inr (),
         emit [Lock ManagerMu, Store p FEnabled,
               Slog LevelInfo ''Site monitoring disabled'' [(''site'', AStr (URL s))],
               Unlock ManagerMu]
           (w\<lparr>heap := (heap w)[p := s\<lparr>Enabled := False\<rparr>]\<rparr>)) \<and>
      map_option Enabled (deref (snd (EnableSite siteID w)) p) = Some True \<and>
      map_option Enabled (deref (snd (DisableSite siteID w)) p) = Some False)"
  by (simp add: EnableSite_def DisableSite_def deref_heap_update)

theorem EnableSite_DisableSite_effect_witness:
  "sites ex_polling 2 = None \<and>
   EnableSite 2 ex_polling = (Inr (), emit [Lock ManagerMu, Unlock ManagerMu] ex_polling) \<and>
   DisableSite 2 ex_polling = (Inr (), emit [Lock ManagerMu, Unlock ManagerMu] ex_polling) \<and>
   sites ex_polling 1 = Some 0 \<and>
   deref ex_polling 0 = Some (ex_site\<lparr>cancelFunc := Some 0\<rparr>) \<and>
   map_option Enabled (deref (snd (EnableSite 1 ex_polling)) 0) = Some True \<and>
   map_option Enabled (deref (snd (DisableSite 1 ex_polling)) 0) = Some False \<and>
   trace (snd (DisableSite 1 ex_polling)) =
     trace ex_polling @
     [Lock ManagerMu, Store 0 FEnabled,
      Slog LevelInfo ''Site monitoring disabled'' [(''site'', AStr ''http://example.com'')],
      Unlock ManagerMu]"
proof -
  have h0: "sites ex_polling 2 = None"
    by (simp add: ex_polling_eq ex_registered_eq)
  have u: "URL (ex_site\<lparr>cancelFunc := Some 0\<rparr>) = ''http://example.com''"
    by (simp add: ex_site_def)
  have a: "EnableSite 2 ex_polling = (Inr (), emit [Lock ManagerMu, Unlock ManagerMu] ex_polling) \<and>
           DisableSite 2 ex_polling = (Inr (), emit [Lock ManagerMu, Unlock ManagerMu] ex_polling)"
    using EnableSite_DisableSite_effect [of ex_polling 2] h0 by blast
  have b: "DisableSite 1 ex_polling =
        (Inr (),
         emit [Lock ManagerMu, Store 0 FEnabled,
               Slog LevelInfo ''Site monitoring disabled''
                 [(''site'', AStr (URL (ex_site\<lparr>cancelFunc := Some 0\<rparr>)))],
               Unlock ManagerMu]
           (ex_polling\<lparr>heap := (heap ex_polling)
                         [0 := ex_site\<lparr>cancelFunc := Some 0, Enabled := False\<rparr>]\<rparr>)) \<and>
      map_option Enabled (deref (snd (EnableSite 1 ex_polling)) 0) = Some True \<and>
      map_option Enabled (deref (snd (DisableSite 1 ex_polling)) 0) = Some False"
    using EnableSite_DisableSite_effect [of ex_polling 1, THEN conjunct2, rule_format,
        OF conjI [OF sites_ex_polling deref_ex_polling]]
    by blast
  have c: "trace (snd (DisableSite 1 ex_polling)) =
     trace ex_polling @
     [Lock ManagerMu, Store 0 FEnabled,
      Slog LevelInfo ''Site monitoring disabled'' [(''site'', AStr ''http://example.com'')],
      Unlock ManagerMu]"
    using b by (simp add: u)
  show ?thesis
    using h0 a b c sites_ex_polling deref_ex_polling by blast
qed

text \<open>
  C9 as stated fails: the site that \<open>NewSite\<close> returns has the empty string as its
  \<open>Status\<close>, which is none of the four constants.
\<close>

theorem NewSite_Status_counterexample:
  "map Status (heap (snd (run [OpNewSite 1 ''http://example.com'' Second DefaultClientConfig]
                            NewManager))) = [[]] \<and>
   [] \<notin> {statusUp, statusDown, statusError, statusPaused}"
  by (simp add: NewSite_def NewManager_def statusUp_def statusDown_def statusError_def
      statusPaused_def)

text \<open>
  C9, as amended: after any run of the program from \<open>NewManager\<close> (sites constructed by
  \<open>NewSite\<close>, then any calls of \<open>Check\<close>, \<open>EnableSite\<close>, \<open>DisableSite\<close>,
  \<open>RegisterSite\<close>, \<open>RevokeSite\<close> and any steps of the goroutines), the \<open>Status\<close> of
  every site is the empty string, which \<open>NewSite\<close> leaves, or one of the four constants.
\<close>

theorem Status_values:
  "\<forall>s \<in> set (heap (snd (run ops NewManager))).
     Status s \<in> {[], statusUp, statusDown, statusError, statusPaused}"
  using status_inv_run [OF status_inv_NewManager, of ops] by (simp add: status_inv_def)

theorem Status_values_witness:
  "ex_site\<lparr>Status := statusDown, StatusChangedAt := 5\<rparr> \<in>
     set (heap (snd (run [OpNewSite 1 ''http://example.com'' Second DefaultClientConfig,
                          OpCheck 0 (Response 500) 5] NewManager))) \<and>
   Status (ex_site\<lparr>Status := statusDown, StatusChangedAt := 5\<rparr>) \<in>
     {[], statusUp, statusDown, statusError, statusPaused}"
proof -
  have m: "ex_site\<lparr>Status := statusDown, StatusChangedAt := 5\<rparr> \<in>
     set (heap (snd (run [OpNewSite 1 ''http://example.com'' Second DefaultClientConfig,
                          OpCheck 0 (Response 500) 5] NewManager)))"
    unfolding run_ex_check by simp
  show ?thesis
    using m Status_values [THEN bspec, OF m] by blast
qed

text \<open>
  C10: for every id, URL, interval and client configuration (and every state of the heap),
  the site that \<open>NewSite\<close> returns has its \<open>Enabled\<close> flag set to true.
\<close>

theorem NewSite_Enabled:
  "map_option Enabled
     (deref (snd (NewSite sid url interval config w)) (fst (NewSite sid url interval config w))) =
   Some True"
  by (simp add: deref_NewSite)

end
